theory Spec2Isabelle
  imports Main "HOL-Library.Sublist"
begin

section \<open>The Ace editor application of OS.js (src/index.js)\<close>

text \<open>
  The application binds the Ace editor widget to the OS.js window, menu and virtual
  filesystem services. Its code is a set of event handlers. Each handler is embedded as
  a function on a \<open>world\<close>: the state the handlers read and write (the widget, the
  hyperapp state container, the process arguments) together with a log of the calls
  they make on their collaborators, in the order they are made, and the promises those
  calls returned.

  The world is the application after its first render: \<open>oncreate\<close> has then created the
  editor, and \<open>basic.init()\<close> runs only after that, so no handler meets an undefined
  \<open>editor\<close>.
\<close>

subsection \<open>Values exchanged with the host\<close>

text \<open>
  A file descriptor of the virtual filesystem, as the open-file and drop events carry
  it. \<open>mime = None\<close> is an absent (undefined or null) property; \<open>isFile = False\<close> covers
  an absent one.
\<close>

record vfs_file =
  path :: string
  filename :: string
  mime :: "string option"
  isFile :: bool

datatype js_error = Error string | SyntaxError string

text \<open>
  How a promise of the virtual filesystem settles. For \<open>readfile\<close> the fulfilment value
  is the text of the file; the application never reads the value of \<open>writefile\<close>.
\<close>

datatype outcome = Fulfilled string | Rejected js_error

subsection \<open>The hyperapp state container (lines 79-85)\<close>

record state =
  theme :: string
  mode :: string
  row :: nat
  column :: nat
  lines :: nat

definition initial_state :: state where
  "initial_state =
     \<lparr>theme = ''ace/theme/monokai'', mode = ''none'', row = 0, column = 0, lines = 0\<rparr>"

subsection \<open>Menus (lines 44-50)\<close>

text \<open>
  An entry's \<open>onclick\<close> closure calls one action; the entry records which. Only the Save
  entry has a \<open>disabled\<close> property; \<open>None\<close> is the absent property.
\<close>

datatype action = MenuNew | MenuOpen | MenuSave | MenuSaveAs | MenuQuit

record menu_item =
  label :: string
  disabled :: "bool option"
  onclick :: action

text \<open>The host's menu reads \<open>disabled\<close> by its truthiness: an absent property is falsy.\<close>

definition is_disabled :: "menu_item \<Rightarrow> bool" where
  "is_disabled item = (disabled item = Some True)"

text \<open>\<open>current\<close> is \<open>proc.args.file\<close>; \<open>!current\<close> holds when it is undefined or null.\<close>

definition createFileMenu :: "vfs_file option \<Rightarrow> (string \<Rightarrow> string) \<Rightarrow> menu_item list" where
  "createFileMenu current tr =
     [\<lparr>label = tr ''LBL_NEW'', disabled = None, onclick = MenuNew\<rparr>,
      \<lparr>label = tr ''LBL_OPEN'', disabled = None, onclick = MenuOpen\<rparr>,
      \<lparr>label = tr ''LBL_SAVE'', disabled = Some (current = None), onclick = MenuSave\<rparr>,
      \<lparr>label = tr ''LBL_SAVEAS'', disabled = None, onclick = MenuSaveAs\<rparr>,
      \<lparr>label = tr ''LBL_QUIT'', disabled = None, onclick = MenuQuit\<rparr>]"

subsection \<open>The editor widget\<close>

text \<open>
  The widget is the embedded Ace editor (the package brace), which is not part of
  src/; the application knows it through its interface: get and set the full text, the
  theme and the syntax mode, query the cursor and the number of lines. A field of the
  record is what the getter of that name returns. What the setters do is what the widget
  does.
\<close>

record editor =
  getValue :: string
  getTheme :: string
  getMode :: string
  getCursor :: "nat \<times> nat"
  getLength :: nat

definition CR :: char where
  "CR = CHR 0x0D"

definition LF :: char where
  "LF = CHR 0x0A"

text \<open>
  The widget's document keeps a text as lines. It splits a text at every line break,
  \<open>\r\n\<close>, \<open>\r\<close> or \<open>\n\<close>.
\<close>

fun split_lines :: "string \<Rightarrow> string list" where
  "split_lines [] = [[]]"
| "split_lines [c] = (if c = CR \<or> c = LF then [[], []] else [[c]])"
| "split_lines (c # d # cs) =
     (if c = CR \<and> d = LF then [] # split_lines cs
      else if c = CR \<or> c = LF then [] # split_lines (d # cs)
      else (case split_lines (d # cs) of
              l # ls \<Rightarrow> (c # l) # ls
            | [] \<Rightarrow> [[c]]))"

text \<open>
  The line break of the document is the first line break of the text that is set, and
  \<open>\n\<close> for a text without one.
\<close>

fun detectNewLine :: "string \<Rightarrow> string" where
  "detectNewLine [] = [LF]"
| "detectNewLine [c] = (if c = CR then [CR] else [LF])"
| "detectNewLine (c # d # cs) =
     (if c = CR \<and> d = LF then [CR, LF]
      else if c = CR then [CR]
      else if c = LF then [LF]
      else detectNewLine (d # cs))"

text \<open>\<open>Array.prototype.join\<close>.\<close>

fun join :: "string \<Rightarrow> string list \<Rightarrow> string" where
  "join sep [] = []"
| "join sep [l] = l"
| "join sep (l # m # ls) = l @ sep @ join sep (m # ls)"

text \<open>
  \<open>editor.setValue(contents)\<close> replaces the document by the lines of the text and selects
  all of it, which leaves the cursor at the end of the last line. \<open>getValue\<close> then
  returns the lines joined by the document's line break: the text with every line break
  replaced by its first one.
\<close>

definition setValue :: "string \<Rightarrow> editor \<Rightarrow> editor" where
  "setValue contents ed =
     (let ls = split_lines contents
      in ed\<lparr>getValue := join (detectNewLine contents) ls,
            getCursor := (length ls - 1, length (last ls)),
            getLength := length ls\<rparr>)"

text \<open>
  The widget announces \<open>changeCursor\<close> when the cursor changes its place. During
  \<open>setValue\<close> the cursor goes to the origin when the old text is removed and to the end
  of the new text when that is inserted; it stays where it is only when it is at the
  origin and the new text is empty. The last announcement is made with the new text in
  place and the cursor at its end.
\<close>

definition setValue_announces_changeCursor :: "string \<Rightarrow> editor \<Rightarrow> bool" where
  "setValue_announces_changeCursor contents ed =
     (\<not> (contents = [] \<and> getCursor ed = (0, 0)))"

text \<open>
  The grammars that are in the bundle: the four that lines 33-36 import and the text
  mode, which is built into the widget.
\<close>

definition bundled_modes :: "string list" where
  "bundled_modes =
     [''ace/mode/javascript'', ''ace/mode/python'', ''ace/mode/css'', ''ace/mode/html'',
      ''ace/mode/text'']"

text \<open>
  \<open>session.setMode(m)\<close> takes a falsy \<open>m\<close> for the text mode. A grammar of the bundle
  becomes the mode of the session at once. For any other grammar the session only
  starts to load the module, and \<open>getMode().$id\<close> is the mode of before when \<open>setMode\<close>
  returns.
\<close>

definition setMode :: "string \<Rightarrow> editor \<Rightarrow> editor" where
  "setMode m ed =
     (let p = (if m = [] then ''ace/mode/text'' else m)
      in if p \<in> set bundled_modes then ed\<lparr>getMode := p\<rparr> else ed)"

subsection \<open>The modelist of the widget\<close>

text \<open>
  \<open>brace/ext/modelist\<close> is the widget's, not part of src/. A mode of its table has a
  name, a caption, the module path \<open>mode\<close> (here \<open>mode_path\<close>) that \<open>setMode\<close> takes, and
  \<open>supportsFile\<close>, the test of a file name against the mode's regular expression.
\<close>

record ace_mode =
  mode_name :: string
  mode_caption :: string
  mode_path :: string
  supportsFile :: "string \<Rightarrow> bool"

text \<open>The regular expressions of the table ignore the case of the letters A to Z.\<close>

definition lower :: "char \<Rightarrow> char" where
  "lower c =
     (case map_of (zip ''ABCDEFGHIJKLMNOPQRSTUVWXYZ'' ''abcdefghijklmnopqrstuvwxyz'') c of
        Some l \<Rightarrow> l
      | None \<Rightarrow> c)"

text \<open>
  For a mode given by a list of extensions \<open>e1|...|ek\<close> the regular expression is
  \<open>^.*\.(e1|...|ek)$\<close> with the flags \<open>gi\<close>: the name ends in a dot and one of the
  extensions, and what stands before the dot has no line break, as \<open>.\<close> passes none.
\<close>

definition ext_re :: "string list \<Rightarrow> string \<Rightarrow> bool" where
  "ext_re exts n =
     list_ex
       (\<lambda>e. suffix (CHR ''.'' # map lower e) (map lower n) \<and>
            list_all (\<lambda>c. c \<noteq> CR \<and> c \<noteq> LF) (take (length n - Suc (length e)) n))
       exts"

definition Mode :: "string \<Rightarrow> string \<Rightarrow> string list \<Rightarrow> ace_mode" where
  "Mode name caption exts =
     \<lparr>mode_name = name, mode_caption = caption, mode_path = ''ace/mode/'' @ name,
      supportsFile = ext_re exts\<rparr>"

definition text_mode :: ace_mode where
  "text_mode = Mode ''text'' ''Text'' [''txt'']"

definition python_mode :: ace_mode where
  "python_mode = Mode ''python'' ''Python'' [''py'']"

text \<open>The file name of a path is what follows its last slash or backslash.\<close>

definition fileName_of :: "string \<Rightarrow> string" where
  "fileName_of p = rev (takeWhile (\<lambda>c. c \<noteq> CHR ''/'' \<and> c \<noteq> CHR 0x5C) (rev p))"

text \<open>
  \<open>modelist.getModeForPath\<close>: the first mode of the table that supports the file name,
  the text mode when there is none. The table \<open>modes\<close> is the widget's and a parameter.
\<close>

definition modelist_getModeForPath :: "ace_mode list \<Rightarrow> string \<Rightarrow> ace_mode" where
  "modelist_getModeForPath modes p =
     (case List.find (\<lambda>m. supportsFile m (fileName_of p)) modes of
        Some m \<Rightarrow> m
      | None \<Rightarrow> text_mode)"

subsection \<open>Calls and promises\<close>

datatype call =
    EditorSetValue string
  | EditorSetTheme string
  | SessionSetMode string
  | VfsReadfile vfs_file
  | VfsWritefile vfs_file string
  | ConsoleError js_error
  | BasicCreateNew
  | BasicCreateOpenDialog
  | BasicCreateSaveDialog
  | BasicOpen vfs_file
  | BasicDestroy
  | ProcDestroy
  | ContextmenuShow nat "menu_item list"

text \<open>
  The reactions the source attaches to a promise, in the shape \<open>p.then(f).catch(g)\<close>
  with either part optional. \<open>SetText\<close> is \<open>setText\<close> (line 104), \<open>LogError\<close> is
  \<open>error => console.error(error)\<close> (line 105).
\<close>

datatype then_callback = SetText

datatype catch_callback = LogError

record promise =
  issued_by :: call
  then_cb :: "then_callback option"
  catch_cb :: "catch_callback option"

subsection \<open>The world\<close>

text \<open>
  Of the process the handlers read \<open>proc.args.file\<close>, the descriptor of the file that is
  open (\<open>None\<close> when it is undefined or null; a descriptor is an object and so truthy),
  and \<open>proc.metadata.mimes\<close>, the list of patterns from the application's metadata.
\<close>

record proc =
  args_file :: "vfs_file option"
  metadata_mimes :: "string list"

record world =
  editor :: editor
  state :: state
  proc :: proc
  calls :: "call list"
  promises :: "promise list"

definition log_call :: "call \<Rightarrow> world \<Rightarrow> world" where
  "log_call c w = w\<lparr>calls := calls w @ [c]\<rparr>"

text \<open>A call of the virtual filesystem is logged and returns a promise.\<close>

definition vfs_call ::
  "call \<Rightarrow> then_callback option \<Rightarrow> catch_callback option \<Rightarrow> world \<Rightarrow> world" where
  "vfs_call c t k w =
     w\<lparr>calls := calls w @ [c],
       promises := promises w @ [\<lparr>issued_by = c, then_cb = t, catch_cb = k\<rparr>]\<rparr>"

subsection \<open>The status and the cursor listener (lines 86, 156-161)\<close>

definition setStatus :: "nat \<Rightarrow> nat \<Rightarrow> nat \<Rightarrow> string \<Rightarrow> world \<Rightarrow> world" where
  "setStatus r c l m w = w\<lparr>state := (state w)\<lparr>row := r, column := c, lines := l, mode := m\<rparr>\<rparr>"

definition on_changeCursor :: "world \<Rightarrow> world" where
  "on_changeCursor w =
     (let (r, c) = getCursor (editor w);
          l = getLength (editor w);
          m = getMode (editor w)
      in setStatus r c l m w)"

subsection \<open>Text of the buffer (lines 70-71)\<close>

text \<open>
  \<open>setText\<close> calls \<open>editor.setValue\<close>. When the widget announces \<open>changeCursor\<close> during
  the call, the listener of lines 156-161 runs; its last run sees the widget as
  \<open>setValue\<close> leaves it.
\<close>

definition setText :: "string \<Rightarrow> world \<Rightarrow> world" where
  "setText contents w =
     (let w1 = log_call (EditorSetValue contents) (w\<lparr>editor := setValue contents (editor w)\<rparr>)
      in if setValue_announces_changeCursor contents (editor w) then on_changeCursor w1
         else w1)"

definition getText :: "world \<Rightarrow> string" where
  "getText w = getValue (editor w)"

definition console_error :: "js_error \<Rightarrow> world \<Rightarrow> world" where
  "console_error e w = log_call (ConsoleError e) w"

subsection \<open>Actions (lines 87-133)\<close>

definition setTheme :: "string \<Rightarrow> world \<Rightarrow> world" where
  "setTheme t w =
     (log_call (EditorSetTheme t) (w\<lparr>editor := (editor w)\<lparr>getTheme := t\<rparr>\<rparr>))
       \<lparr>state := (state w)\<lparr>theme := t\<rparr>\<rparr>"

text \<open>
  \<open>save\<close> (lines 93-97) returns nothing, so hyperapp leaves the state as it is. The
  promise that \<open>writefile\<close> returns is dropped: nothing is attached to it.
\<close>

definition save :: "world \<Rightarrow> world" where
  "save w =
     (case args_file (proc w) of
        Some file \<Rightarrow> vfs_call (VfsWritefile file (getText w)) None None w
      | None \<Rightarrow> w)"

text \<open>
  \<open>load\<close> (lines 99-106). \<open>getModeForPath\<close> is the widget's modelist utility, a
  parameter.
\<close>

definition load :: "(string \<Rightarrow> ace_mode) \<Rightarrow> vfs_file \<Rightarrow> world \<Rightarrow> world" where
  "load getModeForPath item w =
     (let m = getModeForPath (path item);
          w1 = log_call (SessionSetMode (mode_path m))
                 (w\<lparr>editor := setMode (mode_path m) (editor w)\<rparr>)
      in vfs_call (VfsReadfile item) (Some SetText) (Some LogError) w1)"

text \<open>
  Settling a promise runs the reactions attached to it, on the world as it is then. The
  second component is the rejection that no reaction handled, if any.
\<close>

fun settle :: "promise \<Rightarrow> outcome \<Rightarrow> world \<Rightarrow> world \<times> js_error option" where
  "settle p (Fulfilled text) w =
     (case then_cb p of
        Some SetText \<Rightarrow> (setText text w, None)
      | None \<Rightarrow> (w, None))"
| "settle p (Rejected e) w =
     (case catch_cb p of
        Some LogError \<Rightarrow> (console_error e w, None)
      | None \<Rightarrow> (w, Some e))"

subsection \<open>The basic-application helper\<close>

text \<open>The events of the helper and the listeners registered on them (lines 183-185).\<close>

datatype basic_event = NewFile | SaveFile vfs_file | OpenFile vfs_file

fun basic_on :: "(string \<Rightarrow> ace_mode) \<Rightarrow> basic_event \<Rightarrow> world \<Rightarrow> world" where
  "basic_on getModeForPath NewFile w = setText [] w"
| "basic_on getModeForPath (SaveFile item) w = save w"
| "basic_on getModeForPath (OpenFile item) w = load getModeForPath item w"

text \<open>
  Modelled from the spec: the helper is the host's (\<open>osjs/basic-application\<close>), not part
  of src/. By the spec it exposes the new and open flows and emits the events
  \<open>new-file\<close> and \<open>open-file\<close> that the application consumes. Its own bookkeeping (the
  window title, the current file in \<open>proc.args\<close>) is left out: the theorems below hold for
  every value of \<open>proc.args.file\<close>.
\<close>

definition basic_createNew :: "(string \<Rightarrow> ace_mode) \<Rightarrow> world \<Rightarrow> world" where
  "basic_createNew getModeForPath w = basic_on getModeForPath NewFile (log_call BasicCreateNew w)"

definition basic_open :: "(string \<Rightarrow> ace_mode) \<Rightarrow> vfs_file \<Rightarrow> world \<Rightarrow> world" where
  "basic_open getModeForPath item w =
     basic_on getModeForPath (OpenFile item) (log_call (BasicOpen item) w)"

text \<open>The menu actions (lines 129-133) and the file menu (lines 108-113).\<close>

definition menuNew :: "(string \<Rightarrow> ace_mode) \<Rightarrow> world \<Rightarrow> world" where
  "menuNew getModeForPath w = basic_createNew getModeForPath w"

definition menuOpen :: "world \<Rightarrow> world" where
  "menuOpen w = log_call BasicCreateOpenDialog w"

definition menuSave :: "world \<Rightarrow> world" where
  "menuSave w = save w"

definition menuSaveAs :: "world \<Rightarrow> world" where
  "menuSaveAs w = log_call BasicCreateSaveDialog w"

definition menuQuit :: "world \<Rightarrow> world" where
  "menuQuit w = log_call ProcDestroy w"

definition fileMenu :: "(string \<Rightarrow> string) \<Rightarrow> nat \<Rightarrow> world \<Rightarrow> world" where
  "fileMenu tr target w =
     log_call (ContextmenuShow target (createFileMenu (args_file (proc w)) tr)) w"

text \<open>Clicking an entry of the file menu runs its \<open>onclick\<close>.\<close>

fun click :: "(string \<Rightarrow> ace_mode) \<Rightarrow> action \<Rightarrow> world \<Rightarrow> world" where
  "click getModeForPath MenuNew w = menuNew getModeForPath w"
| "click getModeForPath MenuOpen w = menuOpen w"
| "click getModeForPath MenuSave w = menuSave w"
| "click getModeForPath MenuSaveAs w = menuSaveAs w"
| "click getModeForPath MenuQuit w = menuQuit w"

subsection \<open>The status bar (line 167)\<close>

text \<open>
  The status bar renders the state by a template string; the numbers are non-negative
  integers and print in decimal.
\<close>

fun show_nat :: "nat \<Rightarrow> string" where
  "show_nat n =
     (if n < 10 then [''0123456789'' ! n]
      else show_nat (n div 10) @ [''0123456789'' ! (n mod 10)])"

definition statusbar :: "state \<Rightarrow> string" where
  "statusbar s =
     ''Row: '' @ show_nat (row s) @ '' Column: '' @ show_nat (column s) @
     '' Lines: '' @ show_nat (lines s) @ '' Mode: '' @ mode s"

subsection \<open>Dropping a file on the window (lines 175-182)\<close>

text \<open>
  \<open>new RegExp(m)\<close> is the JavaScript engine's, a parameter: it throws a SyntaxError
  (\<open>None\<close>) or yields a regular expression, given by its \<open>test\<close> method.
\<close>

type_synonym regexp = "string \<Rightarrow> bool"

definition regexp_test :: "(string \<Rightarrow> regexp option) \<Rightarrow> string \<Rightarrow> string \<Rightarrow> js_error + bool" where
  "regexp_test RegExp m s =
     (case RegExp m of
        None \<Rightarrow> Inl (SyntaxError m)
      | Some r \<Rightarrow> Inr (r s))"

text \<open>
  \<open>Array.prototype.find\<close>: the first element that passes the test, \<open>None\<close> (undefined)
  when there is none; an exception of the test ends the search.
\<close>

fun array_find :: "('a \<Rightarrow> js_error + bool) \<Rightarrow> 'a list \<Rightarrow> js_error + 'a option" where
  "array_find p [] = Inr None"
| "array_find p (x # xs) =
     (case p x of
        Inl e \<Rightarrow> Inl e
      | Inr True \<Rightarrow> Inr (Some x)
      | Inr False \<Rightarrow> array_find p xs)"

text \<open>
  The truthiness of a value that is a string or undefined: undefined and the empty
  string are falsy.
\<close>

fun truthy :: "string option \<Rightarrow> bool" where
  "truthy None = False"
| "truthy (Some s) = (s \<noteq> [])"

text \<open>
  The guard \<open>data.isFile && data.mime\<close> passes when the MIME type is present and truthy;
  \<open>found\<close> is the pattern that \<open>find\<close> returned, tested by its truthiness.
\<close>

definition win_on_drop ::
  "(string \<Rightarrow> regexp option) \<Rightarrow> (string \<Rightarrow> ace_mode) \<Rightarrow> vfs_file \<Rightarrow> world \<Rightarrow> js_error + world" where
  "win_on_drop RegExp getModeForPath data w =
     (case mime data of
        None \<Rightarrow> Inr w
      | Some s \<Rightarrow>
          if isFile data \<and> truthy (Some s) then
            (case array_find (\<lambda>m. regexp_test RegExp m s) (metadata_mimes (proc w)) of
               Inl e \<Rightarrow> Inl e
             | Inr found \<Rightarrow>
                 if truthy found then Inr (basic_open getModeForPath data w) else Inr w)
          else Inr w)"

text \<open>
  The listener of the process (line 171). The listeners of \<open>resized\<close>, \<open>blur\<close> and
  \<open>focus\<close> (lines 172-174) only pass the event on to the widget and are left out.
\<close>

definition proc_on_destroy :: "world \<Rightarrow> world" where
  "proc_on_destroy w = log_call BasicDestroy w"

text \<open>
  A MIME type matches a pattern when the pattern compiles and its regular expression
  passes the MIME type.
\<close>

definition matches :: "(string \<Rightarrow> regexp option) \<Rightarrow> string \<Rightarrow> string \<Rightarrow> bool" where
  "matches RegExp s m = (case RegExp m of Some r \<Rightarrow> r s | None \<Rightarrow> False)"

declare show_nat.simps [simp del]

subsection \<open>Concrete values\<close>

text \<open>
  Two entries of the modelist's table, in the order of the table: Markdown with the
  extensions \<open>md|markdown\<close>, and Python with \<open>py\<close>.
\<close>

definition example_modes :: "ace_mode list" where
  "example_modes = [Mode ''markdown'' ''Markdown'' [''md'', ''markdown''], python_mode]"

text \<open>
  JavaScript's \<open>RegExp\<close> on the patterns that have no metacharacter: such a pattern
  compiles, and its \<open>test\<close> passes the subjects in which the pattern occurs; the empty
  pattern occurs in every subject. It is applied to such patterns only.
\<close>

definition RegExp_plain :: "string \<Rightarrow> regexp option" where
  "RegExp_plain m = Some (\<lambda>s. sublist m s)"

definition example_file :: vfs_file where
  "example_file =
     \<lparr>path = ''home:/demo.py'', filename = ''demo.py'', mime = Some ''text/x-python'',
      isFile = True\<rparr>"


text \<open>A file whose name has a line break in it, and a text with two kinds of line break.\<close>

definition newline_file :: vfs_file where
  "newline_file =
     \<lparr>path = ''home:/a'' @ [LF] @ ''b.py'', filename = ''a'' @ [LF] @ ''b.py'',
      mime = Some ''text/x-python'', isFile = True\<rparr>"

definition mixed_text :: string where
  "mixed_text = ''a'' @ [CR, LF] @ ''b'' @ [LF] @ ''c''"

definition example_editor :: editor where
  "example_editor =
     \<lparr>getValue = ''print(1)'', getTheme = ''ace/theme/monokai'', getMode = ''ace/mode/text'',
      getCursor = (0, 8), getLength = 1\<rparr>"

definition example_world :: "vfs_file option \<Rightarrow> string list \<Rightarrow> world" where
  "example_world current ms =
     \<lparr>editor = example_editor, state = initial_state,
      proc = \<lparr>args_file = current, metadata_mimes = ms\<rparr>,
      calls = [], promises = []\<rparr>"

section \<open>Properties\<close>

subsection \<open>The widget and the listener\<close>

lemma on_changeCursor_frame:
  "editor (on_changeCursor w) = editor w \<and> calls (on_changeCursor w) = calls w \<and>
   proc (on_changeCursor w) = proc w \<and> promises (on_changeCursor w) = promises w"
  by (simp add: on_changeCursor_def setStatus_def split: prod.split)

lemma setText_calls: "calls (setText contents w) = calls w @ [EditorSetValue contents]"
  by (simp add: setText_def Let_def on_changeCursor_frame log_call_def)

lemma setText_editor: "editor (setText contents w) = setValue contents (editor w)"
  by (simp add: setText_def Let_def on_changeCursor_frame log_call_def)

lemma setValue_getValue:
  "getValue (setValue contents ed) = join (detectNewLine contents) (split_lines contents)"
  by (simp add: setValue_def Let_def)

lemma setValue_getMode: "getMode (setValue contents ed) = getMode ed"
  by (simp add: setValue_def Let_def)

lemma setMode_getValue: "getValue (setMode m ed) = getValue ed"
  by (simp add: setMode_def Let_def)

lemma split_lines_nonempty: "split_lines t \<noteq> []"
  by (induction t rule: split_lines.induct) (auto split: list.splits)

text \<open>A text without a carriage return is kept as it is.\<close>

lemma detectNewLine_without_cr: "CR \<notin> set t \<Longrightarrow> detectNewLine t = [LF]"
  by (induction t rule: detectNewLine.induct) auto

lemma join_split_lines_without_cr: "CR \<notin> set t \<Longrightarrow> join [LF] (split_lines t) = t"
proof (induction t rule: split_lines.induct)
  case 1
  show ?case by simp
next
  case (2 c)
  then show ?case by auto
next
  case (3 c d cs)
  then have c: "c \<noteq> CR" and d: "d \<noteq> CR" and cs: "CR \<notin> set cs" by auto
  obtain l ls where sp: "split_lines (d # cs) = l # ls"
    using split_lines_nonempty [of "d # cs"] by (cases "split_lines (d # cs)") auto
  from 3 c d cs have ih: "join [LF] (split_lines (d # cs)) = d # cs" by auto
  show ?case
  proof (cases "c = LF")
    case True
    with c ih sp show ?thesis by simp
  next
    case False
    with c ih sp show ?thesis by (cases ls) auto
  qed
qed

lemma setValue_without_cr:
  "CR \<notin> set contents \<Longrightarrow> getValue (setValue contents ed) = contents"
  by (simp add: setValue_getValue detectNewLine_without_cr join_split_lines_without_cr)

text \<open>
  After \<open>setText\<close> of a text that is not empty the status is that of the end of the
  text.
\<close>

lemma setText_status:
  assumes "contents \<noteq> []"
  shows "state (setText contents w) =
           (state w)\<lparr>row := length (split_lines contents) - 1,
             column := length (last (split_lines contents)),
             lines := length (split_lines contents), mode := getMode (editor w)\<rparr>"
  using assms
  by (simp add: setText_def Let_def setValue_announces_changeCursor_def on_changeCursor_def
      setStatus_def log_call_def setValue_def)

subsection \<open>Saving\<close>

text \<open>
  The save action is reached from the Save entry of the file menu and from the helper's
  \<open>save-file\<close> event; both run \<open>save\<close>, which ignores the event's argument.
\<close>

lemma save_entry_points:
  "menuSave w = save w \<and> click getModeForPath MenuSave w = save w \<and>
   basic_on getModeForPath (SaveFile item) w = save w"
  by (simp add: menuSave_def)

text \<open>
  C1. Whenever the save action runs while a file is open (\<open>proc.args.file\<close> is set), it
  makes exactly one call, \<open>vfs.writefile\<close>, whose descriptor is the open file and whose
  payload is the full text of the widget's buffer, \<open>editor.getValue()\<close>, which is what
  \<open>getText()\<close> returns; the widget, the state and the process arguments stay as they
  are.
\<close>

theorem save_writes_buffer_to_open_file:
  assumes "args_file (proc w) = Some file"
  shows "calls (save w) = calls w @ [VfsWritefile file (getValue (editor w))] \<and>
         getText w = getValue (editor w) \<and>
         editor (save w) = editor w \<and> state (save w) = state w \<and> proc (save w) = proc w"
  using assms by (simp add: save_def vfs_call_def getText_def)

theorem save_writes_buffer_to_open_file_witness:
  "args_file (proc (example_world (Some example_file) [])) = Some example_file \<and>
   getValue (editor (example_world (Some example_file) [])) = ''print(1)'' \<and>
   calls (save (example_world (Some example_file) [])) =
     [VfsWritefile example_file ''print(1)'']"
proof -
  have open_file: "args_file (proc (example_world (Some example_file) [])) = Some example_file"
    by (simp add: example_world_def)
  from save_writes_buffer_to_open_file [OF open_file] open_file show ?thesis
    by (simp add: example_world_def example_editor_def)
qed

text \<open>
  C2. Whenever the save action runs while no file is open (\<open>proc.args.file\<close> is unset), it
  changes nothing: no call is made, so none on the virtual filesystem, and the state
  (theme, mode, row, column, lines) is the one before.
\<close>

theorem save_without_file_is_noop:
  assumes "args_file (proc w) = None"
  shows "save w = w \<and> calls (save w) = calls w \<and> state (save w) = state w"
  using assms by (simp add: save_def)

theorem save_without_file_is_noop_witness:
  "args_file (proc (example_world None [])) = None \<and>
   save (example_world None []) = example_world None [] \<and>
   calls (save (example_world None [])) = [] \<and>
   state (save (example_world None [])) = initial_state"
proof -
  have no_file: "args_file (proc (example_world None [])) = None"
    by (simp add: example_world_def)
  from save_without_file_is_noop [OF no_file] no_file show ?thesis
    by (simp add: example_world_def)
qed

text \<open>
  C7. Whenever the save action issues a write, the promise that \<open>vfs.writefile\<close> returns
  has no reaction attached, in particular no catch: when the write fails, no handler of
  the application runs, the world stays as it is and the rejection is left unhandled.
\<close>

theorem write_failure_unhandled:
  assumes "args_file (proc w) = Some file"
  shows "promises (save w) = promises w @ [last (promises (save w))] \<and>
         issued_by (last (promises (save w))) = VfsWritefile file (getText w) \<and>
         catch_cb (last (promises (save w))) = None \<and>
         settle (last (promises (save w))) (Rejected e) w' = (w', Some e)"
  using assms by (simp add: save_def vfs_call_def)

theorem write_failure_unhandled_witness:
  "args_file (proc (example_world (Some example_file) [])) = Some example_file \<and>
   catch_cb (last (promises (save (example_world (Some example_file) [])))) = None \<and>
   settle (last (promises (save (example_world (Some example_file) []))))
     (Rejected (Error ''EACCES'')) (save (example_world (Some example_file) [])) =
     (save (example_world (Some example_file) []), Some (Error ''EACCES''))"
proof -
  have open_file: "args_file (proc (example_world (Some example_file) [])) = Some example_file"
    by (simp add: example_world_def)
  from write_failure_unhandled [OF open_file] open_file show ?thesis
    by simp
qed

subsection \<open>Loading\<close>


lemma load_promises:
  "promises (load getModeForPath item w) =
     promises w @
     [\<lparr>issued_by = VfsReadfile item, then_cb = Some SetText, catch_cb = Some LogError\<rparr>]"
  by (simp add: load_def vfs_call_def log_call_def Let_def)

lemma load_editor:
  "editor (load getModeForPath item w) = setMode (mode_path (getModeForPath (path item))) (editor w)"
  by (simp add: load_def vfs_call_def log_call_def Let_def)

lemma load_frame:
  "state (load getModeForPath item w) = state w \<and> proc (load getModeForPath item w) = proc w"
  by (simp add: load_def vfs_call_def log_call_def Let_def)

text \<open>The modelist detects Python for a file name in \<open>.py\<close> that has no line break.\<close>

lemma fileName_of_suffix:
  assumes "suffix s p" and "list_all (\<lambda>c. c \<noteq> CHR ''/'' \<and> c \<noteq> CHR 0x5C) s"
  shows "suffix s (fileName_of p)"
proof -
  from assms(1) obtain zs where p: "p = zs @ s" by (auto simp: suffix_def)
  from assms(2) have "\<And>c. c \<in> set (rev s) \<Longrightarrow> c \<noteq> CHR ''/'' \<and> c \<noteq> CHR 0x5C"
    by (simp add: list_all_iff)
  then have "takeWhile (\<lambda>c. c \<noteq> CHR ''/'' \<and> c \<noteq> CHR 0x5C) (rev s @ rev zs) =
             rev s @ takeWhile (\<lambda>c. c \<noteq> CHR ''/'' \<and> c \<noteq> CHR 0x5C) (rev zs)"
    by (rule takeWhile_append2)
  then have "fileName_of p = rev (takeWhile (\<lambda>c. c \<noteq> CHR ''/'' \<and> c \<noteq> CHR 0x5C) (rev zs)) @ s"
    by (simp add: fileName_of_def p)
  then show ?thesis by (simp add: suffix_def)
qed

lemma python_mode_supports:
  assumes "suffix ''.py'' n" and "list_all (\<lambda>c. c \<noteq> CR \<and> c \<noteq> LF) n"
  shows "supportsFile python_mode n"
proof -
  from assms(1) have "suffix (map lower ''.py'') (map lower n)"
    by (rule map_mono_suffix)
  then have dot: "suffix (CHR ''.'' # map lower ''py'') (map lower n)"
    by (simp add: lower_def)
  from assms(2) have "list_all (\<lambda>c. c \<noteq> CR \<and> c \<noteq> LF) (take (length n - Suc (length ''py'')) n)"
    by (auto simp: list_all_iff dest: in_set_takeD)
  with dot show ?thesis
    by (simp add: python_mode_def Mode_def ext_re_def)
qed

lemma find_first_supporting:
  assumes "list_all (\<lambda>m. \<not> P m) earlier" and "P x"
  shows "List.find P (earlier @ x # later) = Some x"
  using assms by (induction earlier) auto

lemma modelist_detects_python:
  assumes "suffix ''.py'' p"
    and "list_all (\<lambda>c. c \<noteq> CR \<and> c \<noteq> LF) (fileName_of p)"
    and "modes = earlier @ python_mode # later"
    and "list_all (\<lambda>m. \<not> supportsFile m (fileName_of p)) earlier"
  shows "modelist_getModeForPath modes p = python_mode"
proof -
  have "suffix ''.py'' (fileName_of p)"
    using assms(1) by (rule fileName_of_suffix) simp
  then have "supportsFile python_mode (fileName_of p)"
    using assms(2) by (rule python_mode_supports)
  with assms(4)
  have "List.find (\<lambda>m. supportsFile m (fileName_of p)) (earlier @ python_mode # later) =
        Some python_mode"
    by (rule find_first_supporting)
  then show ?thesis
    by (simp add: modelist_getModeForPath_def assms(3))
qed

text \<open>
  C3, as stated: for every open-file event whose path ends in \<open>.py\<close>, \<open>load\<close> sets the
  mode to the Python grammar and, when the read succeeds, the buffer is exactly the text
  read. It fails twice, by what the widget does. The modelist takes a file name with a
  line break in it for plain text, though the path ends in \<open>.py\<close>: no regular expression
  of its table passes a line break. And the widget keeps one kind of line break: of a
  text read with \<open>\r\n\<close> and then \<open>\n\<close> in it, the buffer has \<open>\r\n\<close> in both places.
\<close>

theorem load_python_file_counterexample:
  "suffix ''.py'' (path newline_file) \<and>
   mode_path (modelist_getModeForPath example_modes (path newline_file)) = ''ace/mode/text'' \<and>
   getMode (editor (load (modelist_getModeForPath example_modes) newline_file
     (load (modelist_getModeForPath example_modes) example_file (example_world None [])))) =
     ''ace/mode/text'' \<and>
   suffix ''.py'' (path example_file) \<and>
   getValue (editor (fst (settle
     (last (promises (load (modelist_getModeForPath example_modes) example_file
        (example_world None []))))
     (Fulfilled mixed_text)
     (load (modelist_getModeForPath example_modes) example_file (example_world None []))))) =
     ''a'' @ [CR, LF] @ ''b'' @ [CR, LF] @ ''c'' \<and>
   ''a'' @ [CR, LF] @ ''b'' @ [CR, LF] @ ''c'' \<noteq> mixed_text"
proof -
  have name: "fileName_of (path newline_file) = ''a'' @ [LF] @ ''b.py''"
    by (simp add: fileName_of_def newline_file_def LF_def)
  have plain: "modelist_getModeForPath example_modes (path newline_file) = text_mode"
    by (simp add: modelist_getModeForPath_def name example_modes_def python_mode_def Mode_def
        ext_re_def lower_def LF_def CR_def suffix_to_prefix)
  have text_path: "mode_path text_mode = ''ace/mode/text''"
    by (simp add: text_mode_def Mode_def)
  have py: "suffix ''.py'' (path newline_file) \<and> suffix ''.py'' (path example_file)"
    by (simp add: newline_file_def example_file_def suffix_to_prefix)
  have mode: "getMode (editor (load (modelist_getModeForPath example_modes) newline_file w)) =
      ''ace/mode/text''" for w
    by (simp add: load_editor plain text_path setMode_def bundled_modes_def)
  have buffer: "getValue (editor (fst (settle
     (last (promises (load (modelist_getModeForPath example_modes) example_file
        (example_world None []))))
     (Fulfilled mixed_text) w'))) = ''a'' @ [CR, LF] @ ''b'' @ [CR, LF] @ ''c''" for w'
    by (simp add: load_promises setText_editor setValue_getValue mixed_text_def CR_def LF_def)
  have differ: "''a'' @ [CR, LF] @ ''b'' @ [CR, LF] @ ''c'' \<noteq> mixed_text"
    by (simp add: mixed_text_def CR_def LF_def)
  from plain text_path py mode buffer differ show ?thesis
    by simp
qed

text \<open>
  C3, amended: for every open-file event whose descriptor has a path ending in \<open>.py\<close>
  and a file name without a line break, which no mode listed before Python in the
  modelist's table takes, \<open>load\<close> sets the widget's mode to the Python grammar and issues
  \<open>vfs.readfile\<close> for that descriptor. When the read succeeds, whatever the world is by
  then, \<open>load\<close>'s reaction makes one call, \<open>setValue\<close> with exactly the text read. The
  buffer is then exactly that text when it has no carriage return, and otherwise the
  text with every line break replaced by its first one; the mode is still Python when
  the read succeeds at once.
\<close>

theorem load_python_file:
  assumes "suffix ''.py'' (path item)"
    and "list_all (\<lambda>c. c \<noteq> CR \<and> c \<noteq> LF) (fileName_of (path item))"
    and "modes = earlier @ python_mode # later"
    and "list_all (\<lambda>m. \<not> supportsFile m (fileName_of (path item))) earlier"
  shows "getMode (editor (load (modelist_getModeForPath modes) item w)) = ''ace/mode/python'' \<and>
         issued_by (last (promises (load (modelist_getModeForPath modes) item w))) =
           VfsReadfile item \<and>
         calls (fst (settle (last (promises (load (modelist_getModeForPath modes) item w)))
           (Fulfilled contents) w')) = calls w' @ [EditorSetValue contents] \<and>
         getValue (editor (fst (settle
           (last (promises (load (modelist_getModeForPath modes) item w)))
           (Fulfilled contents) w'))) =
           (if CR \<in> set contents then join (detectNewLine contents) (split_lines contents)
            else contents) \<and>
         getMode (editor (fst (settle
           (last (promises (load (modelist_getModeForPath modes) item w)))
           (Fulfilled contents) (load (modelist_getModeForPath modes) item w)))) =
           ''ace/mode/python''"
proof -
  have "modelist_getModeForPath modes (path item) = python_mode"
    using assms by (rule modelist_detects_python)
  then have detected: "mode_path (modelist_getModeForPath modes (path item)) = ''ace/mode/python''"
    by (simp add: python_mode_def Mode_def)
  have mode: "getMode (editor (load (modelist_getModeForPath modes) item w)) = ''ace/mode/python''"
    by (simp add: load_editor detected setMode_def bundled_modes_def)
  show ?thesis
    by (simp add: mode load_promises setText_calls setText_editor setValue_getValue
        setValue_getMode detectNewLine_without_cr join_split_lines_without_cr)
qed

theorem load_python_file_witness:
  "suffix ''.py'' (path example_file) \<and>
   fileName_of (path example_file) = ''demo.py'' \<and>
   supportsFile (Mode ''markdown'' ''Markdown'' [''md'', ''markdown'']) ''demo.py'' = False \<and>
   getMode (editor (load (modelist_getModeForPath example_modes) example_file
     (example_world None []))) = ''ace/mode/python'' \<and>
   getValue (editor (fst (settle
     (last (promises (load (modelist_getModeForPath example_modes) example_file
        (example_world None []))))
     (Fulfilled ''import os'')
     (load (modelist_getModeForPath example_modes) example_file (example_world None []))))) =
     ''import os''"
proof -
  have py: "suffix ''.py'' (path example_file)"
    by (simp add: example_file_def suffix_to_prefix)
  have name: "fileName_of (path example_file) = ''demo.py''"
    by (simp add: fileName_of_def example_file_def)
  have no_break: "list_all (\<lambda>c. c \<noteq> CR \<and> c \<noteq> LF) (fileName_of (path example_file))"
    by (simp add: name CR_def LF_def)
  have table: "example_modes = [Mode ''markdown'' ''Markdown'' [''md'', ''markdown'']] @ python_mode # []"
    by (simp add: example_modes_def)
  have markdown: "supportsFile (Mode ''markdown'' ''Markdown'' [''md'', ''markdown'']) ''demo.py'' = False"
    by (simp add: Mode_def ext_re_def lower_def suffix_to_prefix)
  then have earlier: "list_all (\<lambda>m. \<not> supportsFile m (fileName_of (path example_file)))
      [Mode ''markdown'' ''Markdown'' [''md'', ''markdown'']]"
    by (simp add: name)
  have no_cr: "CR \<notin> set ''import os''"
    by (simp add: CR_def)
  from load_python_file [where item = example_file and modes = example_modes
      and w = "example_world None []" and contents = "''import os''"
      and w' = "load (modelist_getModeForPath example_modes) example_file (example_world None [])",
      OF py no_break table earlier]
    py name markdown no_cr show ?thesis
    by simp
qed

text \<open>
  C4. For every open-file event whose read fails, the rejection runs the catch of
  \<open>load\<close>: whatever the world is by then, the only change is one more entry in the log
  of calls, \<open>console.error\<close> with the error; the buffer is the one before, no other call
  (no dialog, no menu) is made, and the rejection counts as handled. When the read fails
  at once, the buffer is the one before the event.
\<close>

theorem failed_read_keeps_buffer:
  "fst (settle (last (promises (load getModeForPath item w))) (Rejected e) w') =
     w'\<lparr>calls := calls w' @ [ConsoleError e]\<rparr> \<and>
   snd (settle (last (promises (load getModeForPath item w))) (Rejected e) w') = None \<and>
   getText (fst (settle (last (promises (load getModeForPath item w))) (Rejected e) w')) =
     getText w' \<and>
   getText (fst (settle (last (promises (load getModeForPath item w))) (Rejected e)
     (load getModeForPath item w))) = getText w"
  by (simp add: load_promises console_error_def log_call_def getText_def load_editor
      setMode_getValue)



subsection \<open>The file menu\<close>

text \<open>
  C5. Whatever the buffer holds, selecting New from the file menu leaves it empty:
  \<open>menuNew\<close> calls the helper's \<open>createNew\<close>, the helper emits \<open>new-file\<close>, and the
  listener of that event calls \<open>setText('')\<close>.
\<close>

theorem menu_new_clears_buffer:
  "getText (menuNew getModeForPath w) = [] \<and>
   calls (menuNew getModeForPath w) = calls w @ [BasicCreateNew, EditorSetValue []] \<and>
   click getModeForPath MenuNew w = menuNew getModeForPath w"
  by (simp add: menuNew_def basic_createNew_def setText_calls setText_editor setValue_getValue
      log_call_def getText_def)

text \<open>
  C10. In every file menu that is built, the Save entry is disabled exactly when no
  file is open (\<open>proc.args.file\<close> is falsy), and the New, Open, Save As and Quit entries
  are never disabled; \<open>fileMenu\<close> shows the menu built from the current
  \<open>proc.args.file\<close>.
\<close>

theorem file_menu_disables_only_save:
  "map (\<lambda>item. (onclick item, is_disabled item)) (createFileMenu current tr) =
     [(MenuNew, False), (MenuOpen, False), (MenuSave, current = None), (MenuSaveAs, False),
      (MenuQuit, False)] \<and>
   calls (fileMenu tr target w) =
     calls w @ [ContextmenuShow target (createFileMenu (args_file (proc w)) tr)]"
  by (simp add: createFileMenu_def is_disabled_def fileMenu_def log_call_def)

subsection \<open>The status bar\<close>

text \<open>
  C6. For every cursor-change event of the widget, the listener sets, before it
  returns, the row and the column of the state to the widget's cursor, the lines to the
  length of the session and the mode to the identifier of the session's mode, as they
  are at that moment; the theme is kept and the widget is not touched. The status bar
  renders exactly these values.
\<close>

theorem cursor_change_updates_status:
  "state (on_changeCursor w) =
     \<lparr>theme = theme (state w), mode = getMode (editor w), row = fst (getCursor (editor w)),
      column = snd (getCursor (editor w)), lines = getLength (editor w)\<rparr> \<and>
   editor (on_changeCursor w) = editor w \<and>
   calls (on_changeCursor w) = calls w \<and>
   statusbar (state (on_changeCursor w)) =
     ''Row: '' @ show_nat (fst (getCursor (editor w))) @
     '' Column: '' @ show_nat (snd (getCursor (editor w))) @
     '' Lines: '' @ show_nat (getLength (editor w)) @ '' Mode: '' @ getMode (editor w)"
  by (simp add: on_changeCursor_def setStatus_def statusbar_def split: prod.split)

lemma cursor_change_example:
  "statusbar (state (on_changeCursor (example_world None []))) =
     ''Row: 0 Column: 8 Lines: 1 Mode: ace/mode/text''"
  by code_simp

subsection \<open>Dropping a file\<close>

text \<open>
  When every pattern of the MIME list compiles, \<open>find\<close> throws nothing and returns the
  first pattern that matches.
\<close>

lemma array_find_compiled:
  assumes "list_all (\<lambda>m. RegExp m \<noteq> None) ms"
  shows "array_find (\<lambda>m. regexp_test RegExp m s) ms = Inr (List.find (matches RegExp s) ms)"
  using assms
proof (induction ms)
  case Nil
  show ?case by simp
next
  case (Cons m ms)
  from Cons.prems obtain r where r: "RegExp m = Some r" by auto
  from Cons.prems have "list_all (\<lambda>m. RegExp m \<noteq> None) ms" by simp
  with Cons.IH
  have rest: "array_find (\<lambda>m. regexp_test RegExp m s) ms = Inr (List.find (matches RegExp s) ms)"
    by simp
  have head: "matches RegExp s m = r s" "regexp_test RegExp m s = Inr (r s)"
    by (simp_all add: matches_def regexp_test_def r)
  show ?case
    by (cases "r s") (simp_all add: head rest)
qed

text \<open>A pattern that does not compile ends the handler with the SyntaxError.\<close>

lemma array_find_throws:
  assumes "RegExp m = None"
  shows "array_find (\<lambda>m. regexp_test RegExp m s) (m # ms) = Inl (SyntaxError m)"
  using assms by (simp add: regexp_test_def)

lemma basic_open_calls:
  "calls (basic_open getModeForPath data w) =
     calls w @
     [BasicOpen data, SessionSetMode (mode_path (getModeForPath (path data))), VfsReadfile data]"
  by (simp add: basic_open_def load_def vfs_call_def log_call_def Let_def)

lemma basic_open_neq: "basic_open getModeForPath data w \<noteq> w"
proof
  assume "basic_open getModeForPath data w = w"
  then have "calls (basic_open getModeForPath data w) = calls w" by simp
  then show False by (simp add: basic_open_calls)
qed

text \<open>
  With patterns that compile, the item is opened exactly when it is a file with a
  non-empty MIME type and the first pattern that matches is not the empty string.
\<close>

lemma win_on_drop_compiled:
  assumes "list_all (\<lambda>m. RegExp m \<noteq> None) (metadata_mimes (proc w))"
  shows "win_on_drop RegExp getModeForPath data w =
           Inr (if isFile data \<and>
                   (\<exists>s m. mime data = Some s \<and> s \<noteq> [] \<and>
                      List.find (matches RegExp s) (metadata_mimes (proc w)) = Some m \<and> m \<noteq> [])
                then basic_open getModeForPath data w else w)"
proof (cases "mime data")
  case None
  then show ?thesis by (simp add: win_on_drop_def)
next
  case (Some s)
  show ?thesis
  proof (cases "List.find (matches RegExp s) (metadata_mimes (proc w))")
    case None
    with Some show ?thesis
      by (simp add: win_on_drop_def array_find_compiled [OF assms])
  next
    case found: (Some m)
    with Some show ?thesis
      by (simp add: win_on_drop_def array_find_compiled [OF assms])
  qed
qed

lemma find_nonempty_iff_some:
  assumes "[] \<notin> set ms"
  shows "(\<exists>m. List.find P ms = Some m \<and> m \<noteq> []) \<longleftrightarrow> (\<exists>m\<in>set ms. P m)"
proof
  assume "\<exists>m. List.find P ms = Some m \<and> m \<noteq> []"
  then show "\<exists>m\<in>set ms. P m" by (auto simp: find_Some_iff)
next
  assume "\<exists>m\<in>set ms. P m"
  then have "List.find P ms \<noteq> None" by (auto simp: find_None_iff)
  then obtain m where m: "List.find P ms = Some m" by auto
  then have "m \<in> set ms" by (auto simp: find_Some_iff)
  with assms have "m \<noteq> []" by auto
  with m show "\<exists>m. List.find P ms = Some m \<and> m \<noteq> []" by simp
qed

text \<open>
  The test of line 178 is the truthiness of the pattern that \<open>find\<close> returned. The
  empty pattern passes every MIME type and is falsy: a list that held it would have the
  drop ignored. The theorem below is about lists without it.
\<close>

lemma drop_empty_pattern_ignored:
  "regexp_test RegExp_plain '''' ''text/x-python'' = Inr True \<and>
   win_on_drop RegExp_plain getModeForPath example_file (example_world None ['''']) =
     Inr (example_world None [''''])"
  by (simp add: win_on_drop_def example_file_def example_world_def regexp_test_def
      RegExp_plain_def)

text \<open>
  C9. For every drop event on the window, with a MIME list of regular expressions
  (every pattern compiles and none is the empty string), the dropped item is opened
  through the helper if and only if the drop data is a file, carries a non-empty MIME
  type, and that MIME type matches at least one pattern of the list; otherwise the drop
  is ignored and the world is unchanged. Opening is never without effect.
\<close>

theorem drop_opens_iff_mime_matches:
  assumes "list_all (\<lambda>m. RegExp m \<noteq> None) (metadata_mimes (proc w))"
    and "[] \<notin> set (metadata_mimes (proc w))"
  shows "win_on_drop RegExp getModeForPath data w =
           Inr (if isFile data \<and>
                   (\<exists>s. mime data = Some s \<and> s \<noteq> [] \<and>
                      (\<exists>m\<in>set (metadata_mimes (proc w)). matches RegExp s m))
                then basic_open getModeForPath data w else w) \<and>
         basic_open getModeForPath data w \<noteq> w"
  using win_on_drop_compiled [OF assms(1), of getModeForPath data]
    find_nonempty_iff_some [OF assms(2)]
  by (simp add: basic_open_neq)

theorem drop_opens_iff_mime_matches_witness:
  "RegExp_plain ''zzz'' \<noteq> None \<and> RegExp_plain ''text'' \<noteq> None \<and>
   [] \<notin> set [''zzz'', ''text''] \<and>
   matches RegExp_plain ''text/x-python'' ''text'' \<and>
   win_on_drop RegExp_plain (modelist_getModeForPath example_modes) example_file
     (example_world None [''zzz'', ''text'']) =
     Inr (basic_open (modelist_getModeForPath example_modes) example_file
       (example_world None [''zzz'', ''text''])) \<and>
   matches RegExp_plain ''text/x-python'' ''zzz'' = False \<and>
   win_on_drop RegExp_plain (modelist_getModeForPath example_modes) example_file
     (example_world None [''zzz'']) =
     Inr (example_world None [''zzz''])"
proof -
  have compiled:
    "list_all (\<lambda>m. RegExp_plain m \<noteq> None) (metadata_mimes (proc (example_world None ms)))"
    for ms
    by (simp add: RegExp_plain_def list_all_iff)
  have mimes: "metadata_mimes (proc (example_world None ms)) = ms" for ms
    by (simp add: example_world_def)
  have nonempty2: "[] \<notin> set (metadata_mimes (proc (example_world None [''zzz'', ''text''])))"
    by (simp add: mimes)
  have nonempty1: "[] \<notin> set (metadata_mimes (proc (example_world None [''zzz''])))"
    by (simp add: mimes)
  have hit: "matches RegExp_plain ''text/x-python'' ''text''"
    by (simp add: matches_def RegExp_plain_def sublist_Cons_right)
  have miss: "matches RegExp_plain ''text/x-python'' ''zzz'' = False"
    by (simp add: matches_def RegExp_plain_def sublist_Cons_right)
  have compiles: "RegExp_plain ''zzz'' \<noteq> None \<and> RegExp_plain ''text'' \<noteq> None"
    by (simp add: RegExp_plain_def)
  have dropped: "isFile example_file \<and> mime example_file = Some ''text/x-python''"
    by (simp add: example_file_def)
  from drop_opens_iff_mime_matches
      [OF compiled nonempty2, of "modelist_getModeForPath example_modes" example_file]
    drop_opens_iff_mime_matches
      [OF compiled nonempty1, of "modelist_getModeForPath example_modes" example_file]
    mimes hit miss dropped compiles
  show ?thesis
    by simp
qed

end
